theory Spec2Isabelle
  imports Complex_Main
begin

section \<open>JavaScript values used by the converter\<close>

text \<open>
  A JavaScript string is a sequence of UTF-16 code units. A code unit is modelled as a
  natural number, so that the symbols of the tables that lie outside ASCII
  (\<open>U+20AC\<close>, \<open>U+00A3\<close>, \<open>U+00A5\<close>, \<open>U+20B9\<close>) are one element each, as they are for
  \<open>String.prototype.includes\<close> and for the regular expressions of the source.
  \<open>js\<close> embeds an ASCII literal.
\<close>

type_synonym jschar = nat
type_synonym jsstring = "jschar list"

definition js :: "string \<Rightarrow> jsstring" where
  "js s = map of_char s"

text \<open>
  The values that the two currency slots and a property read can hold. \<open>Builtin n\<close> is
  the member \<open>n\<close> that every object literal inherits from \<open>Object.prototype\<close> (a function,
  or the prototype object itself for \<open>__proto__\<close>): it is an object, hence truthy, and no
  string.
\<close>

datatype jsval = Undefined | Null | Str jsstring | Builtin jsstring

fun truthy :: "jsval \<Rightarrow> bool" where
  "truthy Undefined = False"
| "truthy Null = False"
| "truthy (Str s) = (s \<noteq> [])"
| "truthy (Builtin n) = True"

section \<open>Object literals and property reads\<close>

text \<open>
  An object literal defines its properties from left to right. A key that is written
  twice keeps the position of its first occurrence and the value of its last one; the
  literal of \<open>currencyCodes\<close> in \<open>CurrencyConverter.tsx\<close> writes the yen sign twice.
  None of the keys is an array index, so \<open>Object.entries\<close> lists the properties in this
  order.
\<close>

type_synonym jsobject = "(jsstring \<times> jsstring) list"

fun defineProperty :: "jsobject \<Rightarrow> jsstring \<times> jsstring \<Rightarrow> jsobject" where
  "defineProperty [] kv = [kv]"
| "defineProperty ((k, v) # rest) (k', v') =
     (if k = k' then (k, v') # rest else (k, v) # defineProperty rest (k', v'))"

definition objectLiteral :: "(jsstring \<times> jsstring) list \<Rightarrow> jsobject" where
  "objectLiteral kvs = foldl defineProperty [] kvs"

text \<open>The property names of \<open>Object.prototype\<close> in a browser.\<close>

definition objectPrototypeKeys :: "jsstring list" where
  "objectPrototypeKeys =
     [js ''constructor'', js ''__proto__'', js ''hasOwnProperty'', js ''isPrototypeOf'',
      js ''propertyIsEnumerable'', js ''toLocaleString'', js ''toString'', js ''valueOf'',
      js ''__defineGetter__'', js ''__defineSetter__'', js ''__lookupGetter__'',
      js ''__lookupSetter__'']"

text \<open>
  \<open>obj[key]\<close>: the own property if there is one, else the inherited member, else
  \<open>undefined\<close>.
\<close>

definition getProp :: "jsobject \<Rightarrow> jsstring \<Rightarrow> jsval" where
  "getProp obj key =
     (case map_of obj key of
        Some v \<Rightarrow> Str v
      | None \<Rightarrow> if key \<in> set objectPrototypeKeys then Builtin key else Undefined)"

section \<open>Regular expressions\<close>

text \<open>
  The fragment of ECMAScript regular expressions that the source uses, with the
  backtracking semantics of the language: a matcher returns the states it can end in, in
  the order in which the backtracking search of ECMAScript tries them, so the head of
  the list is the match that \<open>String.prototype.match\<close> reports.
\<close>

datatype cclass = Digit | WordChar | Space | NotLetter

datatype regex =
    RChar jschar
  | RClass cclass
  | REmpty
  | RSeq regex regex
  | RAlt regex regex
  | RStar regex
  | RGroup nat regex
  | RWordBoundary

definition isDigit :: "jschar \<Rightarrow> bool" where
  "isDigit c = (48 \<le> c \<and> c \<le> 57)"

definition isLetter :: "jschar \<Rightarrow> bool" where
  "isLetter c = ((65 \<le> c \<and> c \<le> 90) \<or> (97 \<le> c \<and> c \<le> 122))"

definition isWordChar :: "jschar \<Rightarrow> bool" where
  "isWordChar c = (isLetter c \<or> isDigit c \<or> c = 95)"

text \<open>\<open>\s\<close>: the WhiteSpace and LineTerminator code points of ECMAScript.\<close>

definition isSpace :: "jschar \<Rightarrow> bool" where
  "isSpace c = ((9 \<le> c \<and> c \<le> 13) \<or> c = 32 \<or> c = 160 \<or> c = 5760
     \<or> (8192 \<le> c \<and> c \<le> 8202) \<or> c = 8232 \<or> c = 8233 \<or> c = 8239 \<or> c = 8287
     \<or> c = 12288 \<or> c = 65279)"

fun inClass :: "cclass \<Rightarrow> jschar \<Rightarrow> bool" where
  "inClass Digit c = isDigit c"
| "inClass WordChar c = isWordChar c"
| "inClass Space c = isSpace c"
| "inClass NotLetter c = (\<not> isLetter c)"

text \<open>
  Canonicalize of the \<open>i\<close> flag (without the \<open>u\<close> flag): a code unit is compared by its
  upper case, and a code unit outside ASCII never canonicalizes to an ASCII one. All
  pattern characters of the source are ASCII letters, so only the ASCII part of the
  mapping decides a comparison; the classes \<open>\w\<close> and \<open>[^a-zA-Z]\<close> are closed under it.
\<close>

definition canonicalize :: "bool \<Rightarrow> jschar \<Rightarrow> jschar" where
  "canonicalize ignoreCase c = (if ignoreCase \<and> 97 \<le> c \<and> c \<le> 122 then c - 32 else c)"

text \<open>
  A matcher state: the code unit before the current position (for \<open>\b\<close>), the rest of
  the input, and the captures made so far.
\<close>

type_synonym captures = "(nat \<times> jsstring) list"
type_synonym mstate = "jschar option \<times> jsstring \<times> captures"

definition atBoundary :: "jschar option \<Rightarrow> jsstring \<Rightarrow> bool" where
  "atBoundary prev rest =
     ((case prev of None \<Rightarrow> False | Some c \<Rightarrow> isWordChar c)
      \<noteq> (case rest of [] \<Rightarrow> False | c # _ \<Rightarrow> isWordChar c))"

function (sequential) matcher :: "bool \<Rightarrow> regex \<Rightarrow> mstate \<Rightarrow> mstate list" where
  "matcher ic (RChar p) (prev, rest, caps) =
     (case rest of
        [] \<Rightarrow> []
      | c # cs \<Rightarrow> if canonicalize ic c = canonicalize ic p then [(Some c, cs, caps)] else [])"
| "matcher ic (RClass k) (prev, rest, caps) =
     (case rest of
        [] \<Rightarrow> []
      | c # cs \<Rightarrow> if inClass k c then [(Some c, cs, caps)] else [])"
| "matcher ic REmpty st = [st]"
| "matcher ic (RSeq a b) st = concat (map (matcher ic b) (matcher ic a st))"
| "matcher ic (RAlt a b) st = matcher ic a st @ matcher ic b st"
| "matcher ic (RStar a) (prev, rest, caps) =
     concat (map (\<lambda>(prev', rest', caps').
                    if length rest' < length rest
                    then matcher ic (RStar a) (prev', rest', caps') else [])
                 (matcher ic a (prev, rest, caps)))
     @ [(prev, rest, caps)]"
| "matcher ic (RGroup n a) (prev, rest, caps) =
     map (\<lambda>(prev', rest', caps').
            (prev', rest', (n, take (length rest - length rest') rest) # caps'))
         (matcher ic a (prev, rest, caps))"
| "matcher ic RWordBoundary (prev, rest, caps) =
     (if atBoundary prev rest then [(prev, rest, caps)] else [])"
  by pat_completeness auto
termination
  by (relation "inv_image (less_than <*lex*> less_than)
                  (\<lambda>(ic, r, prev, rest, caps). (size r, length rest))")
     auto

text \<open>Derived forms: \<open>r+\<close>, \<open>r?\<close>, \<open>r{3}\<close>, \<open>r{1,3}\<close>, all greedy.\<close>

definition RPlus :: "regex \<Rightarrow> regex" where
  "RPlus r = RSeq r (RStar r)"

definition ROpt :: "regex \<Rightarrow> regex" where
  "ROpt r = RAlt r REmpty"

definition RThree :: "regex \<Rightarrow> regex" where
  "RThree r = RSeq r (RSeq r r)"

definition ROneToThree :: "regex \<Rightarrow> regex" where
  "ROneToThree r = RSeq r (ROpt (RSeq r (ROpt r)))"

fun RLit :: "jsstring \<Rightarrow> regex" where
  "RLit [] = REmpty"
| "RLit [c] = RChar c"
| "RLit (c # cs) = RSeq (RChar c) (RLit cs)"

text \<open>
  The result of a successful match: the matched text (\<open>match[0]\<close>) and the captures.
\<close>

record jsmatch =
  matched :: jsstring
  groups :: captures

text \<open>
  \<open>match[n]\<close>. A capture that took no part in the match is \<open>undefined\<close> in the source,
  and the empty text here; the five conversion patterns set both of their captures
  whenever they match (\<open>conversion_captures\<close> below), so the difference is never seen.
\<close>

definition group :: "jsmatch \<Rightarrow> nat \<Rightarrow> jsstring" where
  "group m n = (case map_of (groups m) n of Some s \<Rightarrow> s | None \<Rightarrow> [])"

text \<open>One attempt of the matcher at a position: its first result, if it has one.\<close>

definition matchAt :: "bool \<Rightarrow> regex \<Rightarrow> jschar option \<Rightarrow> jsstring \<Rightarrow> jsmatch option" where
  "matchAt ic r prev rest =
     (case matcher ic r (prev, rest, []) of
        [] \<Rightarrow> None
      | (prev', rest', caps) # _ \<Rightarrow>
          Some \<lparr>matched = take (length rest - length rest') rest, groups = caps\<rparr>)"

text \<open>
  The search of a regular expression without the \<open>g\<close> flag: every start position from
  the left, the end of the input included, and the first one at which the matcher
  succeeds.
\<close>

fun search :: "bool \<Rightarrow> regex \<Rightarrow> jschar option \<Rightarrow> jsstring \<Rightarrow> jsmatch option" where
  "search ic r prev [] = matchAt ic r prev []"
| "search ic r prev (c # cs) =
     (case matchAt ic r prev (c # cs) of
        Some m \<Rightarrow> Some m
      | None \<Rightarrow> search ic r (Some c) cs)"

record jsregexp =
  ignoreCase :: bool
  body :: regex

definition match :: "jsstring \<Rightarrow> jsregexp \<Rightarrow> jsmatch option" where
  "match s re = search (ignoreCase re) (body re) None s"

text \<open>
  The captures that a regular expression sets on every path through it: those of a
  group that lies on the path whatever alternative or number of repetitions is taken.
\<close>

fun captures_always :: "regex \<Rightarrow> nat \<Rightarrow> bool" where
  "captures_always (RGroup k a) n = (k = n \<or> captures_always a n)"
| "captures_always (RSeq a b) n = (captures_always a n \<or> captures_always b n)"
| "captures_always (RAlt a b) n = (captures_always a n \<and> captures_always b n)"
| "captures_always r n = False"

fun RSeqs :: "regex list \<Rightarrow> regex" where
  "RSeqs [] = REmpty"
| "RSeqs [r] = r"
| "RSeqs (r # rs) = RSeq r (RSeqs rs)"

section \<open>String and number primitives\<close>

text \<open>
  \<open>String.prototype.toLowerCase\<close> on the Basic Latin block. The Unicode case mapping of
  the other code units is not part of the repository. The general theorems below are
  therefore stated for the extraction with an arbitrary lower-casing function
  (\<open>extractWith\<close>), and hold for the full mapping as well; \<open>toLowerCase\<close> is the
  mapping on queries written in ASCII, where the two agree, and is what the concrete
  queries are run with.
\<close>

definition toLowerCase :: "jsstring \<Rightarrow> jsstring" where
  "toLowerCase s = map (\<lambda>c. if 65 \<le> c \<and> c \<le> 90 then c + 32 else c) s"

fun startsWith :: "jsstring \<Rightarrow> jsstring \<Rightarrow> bool" where
  "startsWith s [] = True"
| "startsWith [] (k # ks) = False"
| "startsWith (c # cs) (k # ks) = (c = k \<and> startsWith cs ks)"

text \<open>\<open>s.includes(key)\<close>: \<open>key\<close> occurs in \<open>s\<close> as a contiguous run of code units.\<close>

fun includes_js :: "jsstring \<Rightarrow> jsstring \<Rightarrow> bool" where
  "includes_js [] key = (key = [])"
| "includes_js (c # cs) key = (startsWith (c # cs) key \<or> includes_js cs key)"

text \<open>
  A JavaScript number. A finite number is represented by the value of its shortest
  decimal rendering (the digits that \<open>Number.prototype.toString\<close> prints), which is the
  decimal that the engine's number formatter rounds; the literal \<open>92.345\<close> is
  \<open>Fin (92345 / 1000)\<close>. The rounding of a long digit string to binary64 is not
  modelled: \<open>parseFloat\<close> below is exact, as the source's is on texts of at most 15
  significant digits.
\<close>

datatype number = Fin rat | NegZero | PosInfinity | NegInfinity | NaN

fun digitsValue :: "nat \<Rightarrow> jsstring \<Rightarrow> nat" where
  "digitsValue acc [] = acc"
| "digitsValue acc (c # cs) = digitsValue (10 * acc + (c - 48)) cs"

text \<open>
  \<open>parseFloat\<close> on the texts that reach it here: the amount pattern, once the commas
  are removed, leaves decimal digits with an optional point and more digits. The digits
  before the point and, after a point, the digits that follow are read. The other
  forms that the source's \<open>parseFloat\<close> reads (a sign, a leading point or blank, an
  exponent, \<open>Infinity\<close>) start with no digit and are not modelled: such a text is
  \<open>NaN\<close> here.
\<close>

definition parseFloat :: "jsstring \<Rightarrow> number" where
  "parseFloat s =
     (let ip = takeWhile isDigit s;
          rest = dropWhile isDigit s;
          fp = (case rest of
                  [] \<Rightarrow> []
                | c # r \<Rightarrow> if c = 46 then takeWhile isDigit r else [])
      in if ip = [] then NaN
         else Fin (of_nat (digitsValue 0 ip) + of_nat (digitsValue 0 fp) / 10 ^ length fp))"

text \<open>\<open>s.replace(/,/g, "")\<close>\<close>

definition removeCommas :: "jsstring \<Rightarrow> jsstring" where
  "removeCommas s = filter (\<lambda>c. c \<noteq> 44) s"

section \<open>The query extractor\<close>

datatype extraction =
    Failure jsstring
  | Success number jsval jsval

definition noAmountError :: jsstring where
  "noAmountError =
     js ''Couldn't identify an amount in your query. Please specify an amount to convert.''"

definition currenciesError :: jsstring where
  "currenciesError = js ''Please specify both the source and target currencies more clearly.''"

text \<open>The alias table of \<open>src/components/CurrencyConverter.tsx\<close>, as its literal is written.\<close>

definition currencyCodes :: jsobject where
  "currencyCodes = objectLiteral
     [(js ''usd'', js ''USD''), (js ''dollar'', js ''USD''), (js ''dollars'', js ''USD''),
      (js ''$'', js ''USD''),
      (js ''eur'', js ''EUR''), (js ''euro'', js ''EUR''), (js ''euros'', js ''EUR''),
      ([8364], js ''EUR''),
      (js ''gbp'', js ''GBP''), (js ''pound'', js ''GBP''), (js ''pounds'', js ''GBP''),
      ([163], js ''GBP''),
      (js ''jpy'', js ''JPY''), (js ''yen'', js ''JPY''), ([165], js ''JPY''),
      (js ''inr'', js ''INR''), (js ''rupee'', js ''INR''), (js ''rupees'', js ''INR''),
      (js ''rs'', js ''INR''), ([8377], js ''INR''),
      (js ''cad'', js ''CAD''), (js ''canadian dollar'', js ''CAD''), (js ''c$'', js ''CAD''),
      (js ''aud'', js ''AUD''), (js ''australian dollar'', js ''AUD''), (js ''a$'', js ''AUD''),
      (js ''chf'', js ''CHF''), (js ''franc'', js ''CHF''), (js ''francs'', js ''CHF''),
      (js ''cny'', js ''CNY''), (js ''yuan'', js ''CNY''), (js ''rmb'', js ''CNY''),
      ([165], js ''CNY'')]"

text \<open>
  The alias table of the second copy of the component (\<open>unnamed/part_000\<close>), which
  differs in the two keys that start with the yen sign.
\<close>

definition currencyCodes_part000 :: jsobject where
  "currencyCodes_part000 = objectLiteral
     [(js ''usd'', js ''USD''), (js ''dollar'', js ''USD''), (js ''dollars'', js ''USD''),
      (js ''$'', js ''USD''),
      (js ''eur'', js ''EUR''), (js ''euro'', js ''EUR''), (js ''euros'', js ''EUR''),
      ([8364], js ''EUR''),
      (js ''gbp'', js ''GBP''), (js ''pound'', js ''GBP''), (js ''pounds'', js ''GBP''),
      ([163], js ''GBP''),
      (js ''jpy'', js ''JPY''), (js ''yen'', js ''JPY''), (165 # js ''jpy'', js ''JPY''),
      (js ''inr'', js ''INR''), (js ''rupee'', js ''INR''), (js ''rupees'', js ''INR''),
      (js ''rs'', js ''INR''), ([8377], js ''INR''),
      (js ''cad'', js ''CAD''), (js ''canadian dollar'', js ''CAD''), (js ''c$'', js ''CAD''),
      (js ''aud'', js ''AUD''), (js ''australian dollar'', js ''AUD''), (js ''a$'', js ''AUD''),
      (js ''chf'', js ''CHF''), (js ''franc'', js ''CHF''), (js ''francs'', js ''CHF''),
      (js ''cny'', js ''CNY''), (js ''yuan'', js ''CNY''), (js ''rmb'', js ''CNY''),
      (165 # js ''cny'', js ''CNY'')]"

text \<open>
  \<open>/\b(\d{1,3}(,\d{3})*(\.\d+)?|\d+(\.\d+)?)\b/\<close>. Only \<open>amountMatch[0]\<close> is read, so
  the inner groups are written without a capture.
\<close>

definition amountRegex :: jsregexp where
  "amountRegex = \<lparr>ignoreCase = False, body =
     RSeqs [RWordBoundary,
            RGroup 1
              (RAlt (RSeqs [ROneToThree (RClass Digit),
                            RStar (RSeq (RChar 44) (RThree (RClass Digit))),
                            ROpt (RSeq (RChar 46) (RPlus (RClass Digit)))])
                    (RSeqs [RPlus (RClass Digit),
                            ROpt (RSeq (RChar 46) (RPlus (RClass Digit)))])),
            RWordBoundary]\<rparr>"

text \<open>
  The five patterns, in the order of the array:
  \<open>/from\s+(\w+)\s+to\s+(\w+)/i\<close>,
  \<open>/(\w+)\s+to\s+(\w+)/i\<close>,
  \<open>/convert\s+[^a-zA-Z]+\s+(\w+)\s+to\s+(\w+)/i\<close>,
  \<open>/exchange\s+[^a-zA-Z]+\s+(\w+)\s+to\s+(\w+)/i\<close>,
  \<open>/(\w+)\s+in\s+(\w+)/i\<close>.
\<close>

definition spaces :: regex where
  "spaces = RPlus (RClass Space)"

definition word :: "nat \<Rightarrow> regex" where
  "word n = RGroup n (RPlus (RClass WordChar))"

definition fromToPattern :: jsregexp where
  "fromToPattern = \<lparr>ignoreCase = True, body =
     RSeqs [RLit (js ''from''), spaces, word 1, spaces, RLit (js ''to''), spaces, word 2]\<rparr>"

definition toPattern :: jsregexp where
  "toPattern = \<lparr>ignoreCase = True, body =
     RSeqs [word 1, spaces, RLit (js ''to''), spaces, word 2]\<rparr>"

definition convertPattern :: jsregexp where
  "convertPattern = \<lparr>ignoreCase = True, body =
     RSeqs [RLit (js ''convert''), spaces, RPlus (RClass NotLetter), spaces,
            word 1, spaces, RLit (js ''to''), spaces, word 2]\<rparr>"

definition exchangePattern :: jsregexp where
  "exchangePattern = \<lparr>ignoreCase = True, body =
     RSeqs [RLit (js ''exchange''), spaces, RPlus (RClass NotLetter), spaces,
            word 1, spaces, RLit (js ''to''), spaces, word 2]\<rparr>"

definition inPattern :: jsregexp where
  "inPattern = \<lparr>ignoreCase = True, body =
     RSeqs [word 1, spaces, RLit (js ''in''), spaces, word 2]\<rparr>"

definition conversionPatterns :: "jsregexp list" where
  "conversionPatterns = [fromToPattern, toPattern, convertPattern, exchangePattern, inPattern]"

text \<open>
  One assignment of the loop body: \<open>if (currencyCodes[token]) slot = currencyCodes[token]\<close>.
\<close>

definition assignIfKnown :: "jsobject \<Rightarrow> jsstring \<Rightarrow> jsval \<Rightarrow> jsval" where
  "assignIfKnown codes token slot =
     (let v = getProp codes token in if truthy v then v else slot)"

text \<open>
  The body of the \<open>for\<close> loop over the patterns, for a pattern that matched with \<open>m\<close>:
  a slot is written only when its captured token has a truthy property in the table, and
  keeps its value otherwise.
\<close>

definition tryPattern ::
  "(jsstring \<Rightarrow> jsstring) \<Rightarrow> jsobject \<Rightarrow> jsmatch \<Rightarrow> jsval \<times> jsval \<Rightarrow> jsval \<times> jsval"
where
  "tryPattern lower codes m slots =
     (let source = lower (group m 1);
          target = lower (group m 2)
      in (assignIfKnown codes source (fst slots), assignIfKnown codes target (snd slots)))"

text \<open>The loop over the patterns, with its \<open>break\<close> once both slots are truthy.\<close>

fun patternLoop ::
  "(jsstring \<Rightarrow> jsstring) \<Rightarrow> jsobject \<Rightarrow> jsstring \<Rightarrow> jsregexp list \<Rightarrow> jsval \<times> jsval \<Rightarrow> jsval \<times> jsval"
where
  "patternLoop lower codes normalizedQuery [] slots = slots"
| "patternLoop lower codes normalizedQuery (pattern # patterns) slots =
     (case match normalizedQuery pattern of
        None \<Rightarrow> patternLoop lower codes normalizedQuery patterns slots
      | Some m \<Rightarrow>
          (let slots' = tryPattern lower codes m slots
           in if truthy (fst slots') \<and> truthy (snd slots') then slots'
              else patternLoop lower codes normalizedQuery patterns slots'))"

text \<open>
  The loop over \<open>Object.entries(currencyCodes)\<close>, with its \<open>break\<close> after the write to
  \<open>toCurrency\<close>.
\<close>

fun scanLoop :: "jsstring \<Rightarrow> jsobject \<Rightarrow> jsval \<times> jsval \<Rightarrow> jsval \<times> jsval" where
  "scanLoop normalizedQuery [] slots = slots"
| "scanLoop normalizedQuery ((key, code) # entries) (fromCurrency, toCurrency) =
     (if includes_js normalizedQuery key then
        (if \<not> truthy fromCurrency then
           scanLoop normalizedQuery entries (Str code, toCurrency)
         else if \<not> truthy toCurrency \<and> Str code \<noteq> fromCurrency then
           (fromCurrency, Str code)
         else scanLoop normalizedQuery entries (fromCurrency, toCurrency))
      else scanLoop normalizedQuery entries (fromCurrency, toCurrency))"

text \<open>The fallback as a whole: the scan runs only when a slot is still falsy.\<close>

definition fallback :: "jsstring \<Rightarrow> jsobject \<Rightarrow> jsval \<times> jsval \<Rightarrow> jsval \<times> jsval" where
  "fallback normalizedQuery codes slots =
     (if \<not> truthy (fst slots) \<or> \<not> truthy (snd slots)
      then scanLoop normalizedQuery codes slots else slots)"

text \<open>The slots after both phases.\<close>

definition detectCurrencies ::
  "(jsstring \<Rightarrow> jsstring) \<Rightarrow> jsobject \<Rightarrow> jsstring \<Rightarrow> jsval \<times> jsval"
where
  "detectCurrencies lower codes normalizedQuery =
     fallback normalizedQuery codes
       (patternLoop lower codes normalizedQuery conversionPatterns (Null, Null))"

text \<open>
  \<open>extractCurrencyInfo\<close>, with the lower-casing function and the alias table as
  parameters.
\<close>

definition extractWith ::
  "(jsstring \<Rightarrow> jsstring) \<Rightarrow> jsobject \<Rightarrow> jsstring \<Rightarrow> extraction"
where
  "extractWith lower codes query =
     (let normalizedQuery = lower query in
      case match normalizedQuery amountRegex of
        None \<Rightarrow> Failure noAmountError
      | Some amountMatch \<Rightarrow>
          (let amount = parseFloat (removeCommas (matched amountMatch));
               slots = detectCurrencies lower codes normalizedQuery
           in if \<not> truthy (fst slots) \<or> \<not> truthy (snd slots)
              then Failure currenciesError
              else Success amount (fst slots) (snd slots)))"

definition extractCurrencyInfo :: "jsstring \<Rightarrow> extraction" where
  "extractCurrencyInfo query = extractWith toLowerCase currencyCodes query"

definition extractCurrencyInfo_part000 :: "jsstring \<Rightarrow> extraction" where
  "extractCurrencyInfo_part000 query = extractWith toLowerCase currencyCodes_part000 query"

section \<open>The result formatter\<close>

text \<open>
  \<open>Intl.NumberFormat('en-US', {minimumFractionDigits, maximumFractionDigits}).format\<close>:
  the magnitude is rounded to \<open>maxFD\<close> fraction digits, a tie away from zero
  (\<open>roundingMode: 'halfExpand'\<close>, the default); the integer digits are grouped in
  threes with commas; trailing zeros of the fraction are dropped down to \<open>minFD\<close>
  digits. \<open>NaN\<close> and the infinities have their own texts (\<open>U+221E\<close> is the infinity sign).
\<close>

function digitsOf :: "nat \<Rightarrow> jsstring" where
  "digitsOf n = (if n < 10 then [48 + n] else digitsOf (n div 10) @ [48 + n mod 10])"
  by pat_completeness auto
termination
  by (relation "measure id") auto

declare digitsOf.simps [simp del]

fun groupRev :: "jsstring \<Rightarrow> jsstring" where
  "groupRev (a # b # c # d # r) = a # b # c # 44 # groupRev (d # r)"
| "groupRev r = r"

definition groupThousands :: "jsstring \<Rightarrow> jsstring" where
  "groupThousands ds = rev (groupRev (rev ds))"

fun dropZeros :: "nat \<Rightarrow> jsstring \<Rightarrow> jsstring" where
  "dropZeros k [] = []"
| "dropZeros k (d # r) = (if k = 0 \<or> d \<noteq> 48 then d # r else dropZeros (k - 1) r)"

definition fractionDigits :: "nat \<Rightarrow> nat \<Rightarrow> nat \<Rightarrow> jsstring" where
  "fractionDigits minFD maxFD fp =
     (let ds = digitsOf fp;
          padded = replicate (maxFD - length ds) 48 @ ds
      in rev (dropZeros (maxFD - minFD) (rev padded)))"

definition formatMagnitude :: "nat \<Rightarrow> nat \<Rightarrow> rat \<Rightarrow> jsstring" where
  "formatMagnitude minFD maxFD q =
     (let n = nat \<lfloor>q * 10 ^ maxFD + 1 / 2\<rfloor>;
          frac = (if maxFD = 0 then [] else fractionDigits minFD maxFD (n mod 10 ^ maxFD))
      in groupThousands (digitsOf (n div 10 ^ maxFD))
         @ (if frac = [] then [] else 46 # frac))"

fun formatNumber :: "nat \<Rightarrow> nat \<Rightarrow> number \<Rightarrow> jsstring" where
  "formatNumber minFD maxFD NaN = js ''NaN''"
| "formatNumber minFD maxFD PosInfinity = [8734]"
| "formatNumber minFD maxFD NegInfinity = [45, 8734]"
| "formatNumber minFD maxFD NegZero = 45 # formatMagnitude minFD maxFD 0"
| "formatNumber minFD maxFD (Fin q) =
     (if q < 0 then 45 # formatMagnitude minFD maxFD (- q) else formatMagnitude minFD maxFD q)"

text \<open>
  \<open>String(v)\<close>, as a template literal and a property key apply it. The text of a
  built-in function is the one V8 prints.
\<close>

fun ToString :: "jsval \<Rightarrow> jsstring" where
  "ToString Undefined = js ''undefined''"
| "ToString Null = js ''null''"
| "ToString (Str s) = s"
| "ToString (Builtin n) =
     (if n = js ''__proto__'' then js ''[object Object]''
      else js ''function '' @ (if n = js ''constructor'' then js ''Object'' else n)
           @ js ''() { [native code] }'')"

text \<open>\<open>symbols[code] || ''\<close>\<close>

definition symbolOrEmpty :: "jsobject \<Rightarrow> jsval \<Rightarrow> jsval" where
  "symbolOrEmpty symbols code =
     (let v = getProp symbols (ToString code) in if truthy v then v else Str [])"

text \<open>\<open>formatCurrencyResult\<close>, with the symbol table as a parameter.\<close>

definition formatWith :: "jsobject \<Rightarrow> number \<Rightarrow> jsval \<Rightarrow> jsval \<Rightarrow> number \<Rightarrow> jsstring" where
  "formatWith symbols amount fromCurrency toCurrency result =
     (let formattedAmount = formatNumber 0 3 amount;
          formattedResult = formatNumber 2 2 result;
          fromSymbol = symbolOrEmpty symbols fromCurrency;
          toSymbol = symbolOrEmpty symbols toCurrency
      in ToString fromSymbol @ formattedAmount @ js '' '' @ ToString fromCurrency
         @ js '' is approximately '' @ ToString toSymbol @ formattedResult @ js '' ''
         @ ToString toCurrency @ js '' at the current exchange rate.'')"

text \<open>The table local to \<open>formatCurrencyResult\<close> in \<open>src/components/CurrencyConverter.tsx\<close>.\<close>

definition currencySymbols :: jsobject where
  "currencySymbols = objectLiteral
     [(js ''USD'', js ''$''), (js ''EUR'', [8364]), (js ''GBP'', [163]), (js ''JPY'', [165]),
      (js ''INR'', [8377]), (js ''CAD'', js ''C$''), (js ''AUD'', js ''A$''),
      (js ''CHF'', js ''CHF''), (js ''CNY'', [165])]"

definition formatCurrencyResult :: "number \<Rightarrow> jsval \<Rightarrow> jsval \<Rightarrow> number \<Rightarrow> jsstring" where
  "formatCurrencyResult = formatWith currencySymbols"

text \<open>
  The module-level tables of the second copy (\<open>unnamed/part_000\<close>):
  \<open>CURRENCY_SYMBOLS = Object.fromEntries(CURRENCY_LIST.map(c => [c.code, c.symbol]))\<close>.
\<close>

record currency =
  code :: jsstring
  name :: jsstring
  symbol :: jsstring

definition CURRENCY_LIST :: "currency list" where
  "CURRENCY_LIST =
     [\<lparr>code = js ''USD'', name = js ''US Dollar'', symbol = js ''$''\<rparr>,
      \<lparr>code = js ''EUR'', name = js ''Euro'', symbol = [8364]\<rparr>,
      \<lparr>code = js ''GBP'', name = js ''British Pound'', symbol = [163]\<rparr>,
      \<lparr>code = js ''JPY'', name = js ''Japanese Yen'', symbol = [165]\<rparr>,
      \<lparr>code = js ''INR'', name = js ''Indian Rupee'', symbol = [8377]\<rparr>,
      \<lparr>code = js ''CAD'', name = js ''Canadian Dollar'', symbol = js ''C$''\<rparr>,
      \<lparr>code = js ''AUD'', name = js ''Australian Dollar'', symbol = js ''A$''\<rparr>,
      \<lparr>code = js ''CHF'', name = js ''Swiss Franc'', symbol = js ''CHF''\<rparr>,
      \<lparr>code = js ''CNY'', name = js ''Chinese Yuan'', symbol = [165]\<rparr>,
      \<lparr>code = js ''RUB'', name = js ''Russian Ruble'', symbol = [8381]\<rparr>,
      \<lparr>code = js ''MXN'', name = js ''Mexican Peso'', symbol = js ''$''\<rparr>,
      \<lparr>code = js ''BRL'', name = js ''Brazilian Real'', symbol = js ''R$''\<rparr>]"

definition CURRENCY_SYMBOLS :: jsobject where
  "CURRENCY_SYMBOLS = objectLiteral (map (\<lambda>c. (code c, symbol c)) CURRENCY_LIST)"

definition formatCurrencyResult_part000 ::
  "number \<Rightarrow> jsval \<Rightarrow> jsval \<Rightarrow> number \<Rightarrow> jsstring"
where
  "formatCurrencyResult_part000 = formatWith CURRENCY_SYMBOLS"

text \<open>
  A rendering with exactly two fraction digits: the text ends with a digit, a point and
  two digits, and has no other point.
\<close>

definition twoFractionDigits :: "jsstring \<Rightarrow> bool" where
  "twoFractionDigits s =
     (case rev s of
        d2 # d1 # p # d0 # r \<Rightarrow>
          isDigit d2 \<and> isDigit d1 \<and> p = 46 \<and> isDigit d0 \<and> 46 \<notin> set r
      | _ \<Rightarrow> False)"

section \<open>Evaluation\<close>

lemma js_eq_Nil [simp]: "(js s = []) = (s = [])"
  by (simp add: js_def)

lemmas regex_eval =
  match_def matchAt_def ROneToThree_def ROpt_def RPlus_def RThree_def isDigit_def isWordChar_def
  isLetter_def isSpace_def atBoundary_def canonicalize_def js_def spaces_def word_def

lemmas pattern_defs =
  fromToPattern_def toPattern_def convertPattern_def exchangePattern_def inPattern_def

lemmas table_eval =
  objectLiteral_def getProp_def objectPrototypeKeys_def js_def toLowerCase_def
  currencyCodes_def currencyCodes_part000_def

lemmas loop_eval =
  conversionPatterns_def tryPattern_def assignIfKnown_def group_def Let_def

lemmas extract_eval =
  extractCurrencyInfo_def extractCurrencyInfo_part000_def extractWith_def
  detectCurrencies_def fallback_def Let_def

subsection \<open>The amount pattern on sample texts\<close>

text \<open>
  The first alternative gives way to the second where a digit follows its three digits;
  a group of thousands needs exactly three digits; digits that touch a letter have no
  word boundary before them; the first number from the left is taken.
\<close>

lemma amount_samples:
  "map_option matched (match (js ''1234'') amountRegex) = Some (js ''1234'')"
  "map_option matched (match (js ''pay 12,345.67 now'') amountRegex) = Some (js ''12,345.67'')"
  "map_option matched (match (js ''1,23'') amountRegex) = Some (js ''1'')"
  "match (js ''usd100'') amountRegex = None"
  "map_option matched (match (js ''in 2024, convert 100 usd to eur'') amountRegex)
     = Some (js ''2024'')"
  by (simp_all add: regex_eval amountRegex_def)

subsection \<open>The query about rupees and dollars\<close>

lemma lower_rupees:
  "toLowerCase (js ''Convert 10000 Indian Rupees to US Dollars'')
     = js ''convert 10000 indian rupees to us dollars''"
  by (simp add: toLowerCase_def js_def)

lemma amount_rupees:
  "match (js ''convert 10000 indian rupees to us dollars'') amountRegex
     = Some \<lparr>matched = js ''10000'', groups = [(1, js ''10000'')]\<rparr>"
  by (simp add: regex_eval amountRegex_def)

lemma parse_10000: "parseFloat (removeCommas (js ''10000'')) = Fin 10000"
  by (simp add: parseFloat_def removeCommas_def js_def isDigit_def)

lemma patterns_rupees:
  "match (js ''convert 10000 indian rupees to us dollars'') fromToPattern = None"
  "match (js ''convert 10000 indian rupees to us dollars'') toPattern
     = Some \<lparr>matched = js ''rupees to us'', groups = [(2, js ''us''), (1, js ''rupees'')]\<rparr>"
  "match (js ''convert 10000 indian rupees to us dollars'') convertPattern = None"
  "match (js ''convert 10000 indian rupees to us dollars'') exchangePattern = None"
  "match (js ''convert 10000 indian rupees to us dollars'') inPattern = None"
  by (simp_all add: regex_eval pattern_defs)

lemma lookups_rupees:
  "getProp currencyCodes (toLowerCase (js ''rupees'')) = Str (js ''INR'')"
  "getProp currencyCodes (toLowerCase (js ''us'')) = Undefined"
  "getProp currencyCodes_part000 (toLowerCase (js ''rupees'')) = Str (js ''INR'')"
  "getProp currencyCodes_part000 (toLowerCase (js ''us'')) = Undefined"
  by (simp_all add: table_eval)

lemma cascade_rupees:
  "patternLoop toLowerCase currencyCodes (js ''convert 10000 indian rupees to us dollars'')
     conversionPatterns (Null, Null) = (Str (js ''INR''), Null)"
  "patternLoop toLowerCase currencyCodes_part000 (js ''convert 10000 indian rupees to us dollars'')
     conversionPatterns (Null, Null) = (Str (js ''INR''), Null)"
  by (simp_all add: loop_eval patterns_rupees lookups_rupees)

lemma scan_rupees:
  "scanLoop (js ''convert 10000 indian rupees to us dollars'') currencyCodes
     (Str (js ''INR''), Null) = (Str (js ''INR''), Str (js ''USD''))"
  "scanLoop (js ''convert 10000 indian rupees to us dollars'') currencyCodes_part000
     (Str (js ''INR''), Null) = (Str (js ''INR''), Str (js ''USD''))"
  by (simp_all add: table_eval)

text \<open>
  C2. \<open>extractCurrencyInfo("Convert 10000 Indian Rupees to US Dollars")\<close> succeeds with
  amount 10000, source \<open>INR\<close> and target \<open>USD\<close>, in both copies of the component. The
  pattern phase ends with the target still unset (the pattern \<open>X to Y\<close> captures
  \<open>rupees\<close> and \<open>us\<close>, and \<open>us\<close> is no alias), and the scan of the alias table sets it from
  the key \<open>dollar\<close>.
\<close>

theorem extract_rupees_to_dollars:
  "extractCurrencyInfo (js ''Convert 10000 Indian Rupees to US Dollars'')
     = Success (Fin 10000) (Str (js ''INR'')) (Str (js ''USD''))
   \<and> extractCurrencyInfo_part000 (js ''Convert 10000 Indian Rupees to US Dollars'')
     = Success (Fin 10000) (Str (js ''INR'')) (Str (js ''USD''))
   \<and> patternLoop toLowerCase currencyCodes
        (toLowerCase (js ''Convert 10000 Indian Rupees to US Dollars''))
        conversionPatterns (Null, Null) = (Str (js ''INR''), Null)
   \<and> patternLoop toLowerCase currencyCodes_part000
        (toLowerCase (js ''Convert 10000 Indian Rupees to US Dollars''))
        conversionPatterns (Null, Null) = (Str (js ''INR''), Null)
   \<and> scanLoop (toLowerCase (js ''Convert 10000 Indian Rupees to US Dollars''))
        currencyCodes (Str (js ''INR''), Null) = (Str (js ''INR''), Str (js ''USD''))
   \<and> scanLoop (toLowerCase (js ''Convert 10000 Indian Rupees to US Dollars''))
        currencyCodes_part000 (Str (js ''INR''), Null) = (Str (js ''INR''), Str (js ''USD''))"
  by (simp add: extract_eval lower_rupees amount_rupees parse_10000
        cascade_rupees scan_rupees)


theorem extract_rupees_to_dollars_witness:
  "extractCurrencyInfo (js ''Convert 10000 Indian Rupees to US Dollars'')
     \<noteq> Failure currenciesError
   \<and> extractCurrencyInfo_part000 (js ''Convert 10000 Indian Rupees to US Dollars'')
     \<noteq> Failure currenciesError"
  using extract_rupees_to_dollars by simp

subsection \<open>The query about dollars in rupees\<close>

lemma lower_howmuch:
  "toLowerCase (js ''How much is 200 USD in INR?'') = js ''how much is 200 usd in inr?''"
  by (simp add: toLowerCase_def js_def)

lemma amount_howmuch:
  "match (js ''how much is 200 usd in inr?'') amountRegex
     = Some \<lparr>matched = js ''200'', groups = [(1, js ''200'')]\<rparr>"
  by (simp add: regex_eval amountRegex_def)

lemma parse_200: "parseFloat (removeCommas (js ''200'')) = Fin 200"
  by (simp add: parseFloat_def removeCommas_def js_def isDigit_def)

lemma patterns_howmuch:
  "match (js ''how much is 200 usd in inr?'') fromToPattern = None"
  "match (js ''how much is 200 usd in inr?'') toPattern = None"
  "match (js ''how much is 200 usd in inr?'') convertPattern = None"
  "match (js ''how much is 200 usd in inr?'') exchangePattern = None"
  "match (js ''how much is 200 usd in inr?'') inPattern
     = Some \<lparr>matched = js ''usd in inr'', groups = [(2, js ''inr''), (1, js ''usd'')]\<rparr>"
  by (simp_all add: regex_eval pattern_defs)

lemma lookups_howmuch:
  "getProp currencyCodes (toLowerCase (js ''usd'')) = Str (js ''USD'')"
  "getProp currencyCodes (toLowerCase (js ''inr'')) = Str (js ''INR'')"
  "getProp currencyCodes_part000 (toLowerCase (js ''usd'')) = Str (js ''USD'')"
  "getProp currencyCodes_part000 (toLowerCase (js ''inr'')) = Str (js ''INR'')"
  by (simp_all add: table_eval)

lemma cascade_howmuch:
  "patternLoop toLowerCase currencyCodes (js ''how much is 200 usd in inr?'')
     conversionPatterns (Null, Null) = (Str (js ''USD''), Str (js ''INR''))"
  "patternLoop toLowerCase currencyCodes_part000 (js ''how much is 200 usd in inr?'')
     conversionPatterns (Null, Null) = (Str (js ''USD''), Str (js ''INR''))"
  by (simp_all add: loop_eval patterns_howmuch lookups_howmuch)

text \<open>
  C5. \<open>extractCurrencyInfo("How much is 200 USD in INR?")\<close> succeeds with amount 200,
  source \<open>USD\<close> and target \<open>INR\<close>, in both copies of the component. None of the first four
  patterns matches the lower-cased query; the last one, \<open>X in Y\<close>, matches \<open>usd in inr\<close>,
  and the pattern phase ends with both slots set.
\<close>

theorem extract_dollars_in_rupees:
  "extractCurrencyInfo (js ''How much is 200 USD in INR?'')
     = Success (Fin 200) (Str (js ''USD'')) (Str (js ''INR''))
   \<and> extractCurrencyInfo_part000 (js ''How much is 200 USD in INR?'')
     = Success (Fin 200) (Str (js ''USD'')) (Str (js ''INR''))
   \<and> map (match (toLowerCase (js ''How much is 200 USD in INR?''))) conversionPatterns
     = [None, None, None, None,
        Some \<lparr>matched = js ''usd in inr'', groups = [(2, js ''inr''), (1, js ''usd'')]\<rparr>]
   \<and> last conversionPatterns = inPattern
   \<and> patternLoop toLowerCase currencyCodes (toLowerCase (js ''How much is 200 USD in INR?''))
        conversionPatterns (Null, Null) = (Str (js ''USD''), Str (js ''INR''))
   \<and> patternLoop toLowerCase currencyCodes_part000
        (toLowerCase (js ''How much is 200 USD in INR?''))
        conversionPatterns (Null, Null) = (Str (js ''USD''), Str (js ''INR''))"
proof -
  have "map (match (js ''how much is 200 usd in inr?'')) conversionPatterns
     = [None, None, None, None,
        Some \<lparr>matched = js ''usd in inr'', groups = [(2, js ''inr''), (1, js ''usd'')]\<rparr>]"
    by (simp add: conversionPatterns_def patterns_howmuch)
  moreover have "last conversionPatterns = inPattern"
    by (simp add: conversionPatterns_def)
  ultimately show ?thesis
    by (simp add: extract_eval lower_howmuch amount_howmuch parse_200 cascade_howmuch)
qed

theorem extract_dollars_in_rupees_witness:
  "extractCurrencyInfo (js ''How much is 200 USD in INR?'') \<noteq> Failure currenciesError
   \<and> extractCurrencyInfo_part000 (js ''How much is 200 USD in INR?'')
     \<noteq> Failure currenciesError"
  using extract_dollars_in_rupees by simp

subsection \<open>Formatting 92.345 euros\<close>

lemma floor_numeral_div: "\<lfloor>(numeral a / numeral b :: rat)\<rfloor> = numeral a div numeral b"
  using floor_divide_of_int_eq [of "numeral a" "numeral b", where ?'a = rat] by simp

lemma digitsOf_small: "n < 10 \<Longrightarrow> digitsOf n = [48 + n]"
  by (simp add: digitsOf.simps)

lemma digitsOf_large: "10 \<le> n \<Longrightarrow> digitsOf n = digitsOf (n div 10) @ [48 + n mod 10]"
  by (subst digitsOf.simps) simp

lemma replicate_pos: "0 < n \<Longrightarrow> replicate n x = x # replicate (n - 1) x"
  by (cases n) simp_all

lemmas number_eval =
  formatMagnitude_def fractionDigits_def groupThousands_def digitsOf_small digitsOf_large
  floor_numeral_div replicate_pos Let_def

lemmas format_eval =
  formatCurrencyResult_def formatCurrencyResult_part000_def formatWith_def symbolOrEmpty_def
  currencySymbols_def CURRENCY_SYMBOLS_def CURRENCY_LIST_def objectLiteral_def getProp_def
  objectPrototypeKeys_def

text \<open>
  C8. \<open>formatCurrencyResult(100, "USD", "EUR", 92.345)\<close> is the text
  \<open>$100 USD is approximately\<close> \<open>U+20AC\<close>\<open>92.35 EUR at the current exchange rate.\<close>, in
  both copies of the component.
\<close>

theorem format_100_usd_eur:
  "formatCurrencyResult (Fin 100) (Str (js ''USD'')) (Str (js ''EUR'')) (Fin (92345 / 1000))
     = js ''$100 USD is approximately '' @ [8364] @ js ''92.35 EUR at the current exchange rate.''
   \<and> formatCurrencyResult_part000 (Fin 100) (Str (js ''USD'')) (Str (js ''EUR''))
       (Fin (92345 / 1000))
     = js ''$100 USD is approximately '' @ [8364] @ js ''92.35 EUR at the current exchange rate.''"
  by (simp add: format_eval number_eval js_def)

theorem format_100_usd_eur_witness:
  "length (formatCurrencyResult (Fin 100) (Str (js ''USD'')) (Str (js ''EUR''))
             (Fin (92345 / 1000))) = 66
   \<and> length (formatCurrencyResult_part000 (Fin 100) (Str (js ''USD'')) (Str (js ''EUR''))
             (Fin (92345 / 1000))) = 66"
  using format_100_usd_eur by (simp add: js_def)

section \<open>Captures of the conversion patterns\<close>

lemma matcher_keeps_captures:
  "st' \<in> set (matcher ic r st) \<Longrightarrow> n \<in> fst ` set (snd (snd st)) \<Longrightarrow>
   n \<in> fst ` set (snd (snd st'))"
proof (induction ic r st arbitrary: st' rule: matcher.induct)
  case (1 ic p prev rest caps)
  then show ?case by (auto split: list.splits if_splits)
next
  case (2 ic k prev rest caps)
  then show ?case by (auto split: list.splits if_splits)
next
  case (3 ic st)
  then show ?case by simp
next
  case (4 ic a b st)
  have "st' \<in> set (concat (map (matcher ic b) (matcher ic a st)))"
    using "4.prems"(1) by (simp only: matcher.simps)
  then obtain mid where mid: "mid \<in> set (matcher ic a st)"
    and st': "st' \<in> set (matcher ic b mid)" by (auto simp del: matcher.simps)
  have "n \<in> fst ` set (snd (snd mid))" using "4.IH"(1) [OF mid "4.prems"(2)] .
  then show ?case using "4.IH"(2) [OF mid st'] by simp
next
  case (5 ic a b st)
  from "5.prems"(1) have "st' \<in> set (matcher ic a st) \<or> st' \<in> set (matcher ic b st)"
    by simp
  then show ?case using "5.IH"(1) [OF _ "5.prems"(2)] "5.IH"(2) [OF _ "5.prems"(2)] by blast
next
  case (6 ic a prev rest caps)
  have "matcher ic (RStar a) (prev, rest, caps)
      = concat (map (\<lambda>(prev', rest', caps').
                    if length rest' < length rest
                    then matcher ic (RStar a) (prev', rest', caps') else [])
                 (matcher ic a (prev, rest, caps))) @ [(prev, rest, caps)]"
    by (rule matcher.simps)
  then have "st' \<in> set (concat (map (\<lambda>(prev', rest', caps').
                    if length rest' < length rest
                    then matcher ic (RStar a) (prev', rest', caps') else [])
                 (matcher ic a (prev, rest, caps))) @ [(prev, rest, caps)])"
    using "6.prems"(1) by (rule subst)
  then consider
    (stop) "st' = (prev, rest, caps)"
    | (more) mid where "mid \<in> set (matcher ic a (prev, rest, caps))"
      "length (fst (snd mid)) < length rest"
      "st' \<in> set (matcher ic (RStar a) mid)"
    by (auto simp del: matcher.simps split: if_splits prod.splits)
  then show ?case
  proof cases
    case stop
    then show ?thesis using "6.prems"(2) by simp
  next
    case more
    obtain p' r' c' where m: "mid = (p', r', c')" by (cases mid)
    have a: "(p', r', c') \<in> set (matcher ic a (prev, rest, caps))"
      using more(1) unfolding m .
    have b: "length r' < length rest" using more(2) unfolding m by simp
    have c: "st' \<in> set (matcher ic (RStar a) (p', r', c'))" using more(3) unfolding m .
    have "n \<in> fst ` set (snd (snd (p', r', c')))" using "6.IH"(1) [OF a "6.prems"(2)] .
    then show ?thesis by (rule "6.IH"(2) [OF a refl refl b c])
  qed
next
  case (7 ic k a prev rest caps)
  have "st' \<in> set (map (\<lambda>(prev', rest', caps').
            (prev', rest', (k, take (length rest - length rest') rest) # caps'))
         (matcher ic a (prev, rest, caps)))"
    using "7.prems"(1) by (simp only: matcher.simps)
  then obtain mid where mid: "mid \<in> set (matcher ic a (prev, rest, caps))"
    and st': "st' = (fst mid, fst (snd mid),
        (k, take (length rest - length (fst (snd mid))) rest) # snd (snd mid))"
    by (auto simp del: matcher.simps split: prod.splits)
  have "n \<in> fst ` set (snd (snd mid))" using "7.IH" [OF mid "7.prems"(2)] .
  then show ?case using st' by simp
next
  case (8 ic prev rest caps)
  then show ?case by (auto split: if_splits)
qed

lemma captures_always_set:
  "captures_always r n \<Longrightarrow> st' \<in> set (matcher ic r st) \<Longrightarrow> n \<in> fst ` set (snd (snd st'))"
proof (induction r arbitrary: st st')
  case (RSeq a b)
  have "st' \<in> set (concat (map (matcher ic b) (matcher ic a st)))"
    using RSeq.prems(2) by (simp only: matcher.simps)
  then obtain mid where mid: "mid \<in> set (matcher ic a st)"
    and st': "st' \<in> set (matcher ic b mid)" by (auto simp del: matcher.simps)
  from RSeq.prems(1) have "captures_always a n \<or> captures_always b n" by simp
  then show ?case
  proof
    assume "captures_always a n"
    then have "n \<in> fst ` set (snd (snd mid))" using RSeq.IH(1) mid by blast
    then show ?thesis using matcher_keeps_captures [OF st'] by blast
  next
    assume "captures_always b n"
    then show ?thesis using RSeq.IH(2) st' by blast
  qed
next
  case (RAlt a b)
  from RAlt.prems(2) have "st' \<in> set (matcher ic a st) \<or> st' \<in> set (matcher ic b st)"
    by simp
  moreover have "captures_always a n" "captures_always b n" using RAlt.prems(1) by simp_all
  ultimately show ?case using RAlt.IH by blast
next
  case (RGroup k a)
  obtain prev rest caps where st: "st = (prev, rest, caps)" by (cases st)
  have "st' \<in> set (map (\<lambda>(prev', rest', caps').
            (prev', rest', (k, take (length rest - length rest') rest) # caps'))
         (matcher ic a (prev, rest, caps)))"
    using RGroup.prems(2) unfolding st by (simp only: matcher.simps)
  then obtain mid where mid: "mid \<in> set (matcher ic a st)"
    and st': "st' = (fst mid, fst (snd mid),
        (k, take (length rest - length (fst (snd mid))) rest) # snd (snd mid))"
    unfolding st by (auto simp del: matcher.simps split: prod.splits)
  from RGroup.prems(1) have "k = n \<or> captures_always a n" by simp
  then show ?case
  proof
    assume "k = n"
    then show ?thesis using st' by simp
  next
    assume "captures_always a n"
    then have "n \<in> fst ` set (snd (snd mid))" using RGroup.IH mid by blast
    then show ?thesis using st' by simp
  qed
qed simp_all

lemma matchAt_captures:
  assumes "captures_always r n" and "matchAt ic r prev rest = Some m"
  shows "map_of (groups m) n \<noteq> None"
proof -
  from assms(2) obtain p' r' c' sts where r: "matcher ic r (prev, rest, []) = (p', r', c') # sts"
    and m: "groups m = c'"
    by (auto simp: matchAt_def split: list.splits)
  have "(p', r', c') \<in> set (matcher ic r (prev, rest, []))" using r by simp
  from captures_always_set [OF assms(1) this] have "n \<in> fst ` set c'" by simp
  then show ?thesis using m by (simp add: map_of_eq_None_iff)
qed

lemma search_captures:
  "captures_always r n \<Longrightarrow> search ic r prev rest = Some m \<Longrightarrow> map_of (groups m) n \<noteq> None"
proof (induction rest arbitrary: prev)
  case Nil
  then show ?case using matchAt_captures [of r n ic prev "[]" m] by simp
next
  case (Cons c cs)
  show ?case
  proof (cases "matchAt ic r prev (c # cs)")
    case None
    then have "search ic r (Some c) cs = Some m" using Cons.prems(2) by simp
    then show ?thesis using Cons.IH [OF Cons.prems(1)] by blast
  next
    case (Some m')
    then have "m' = m" using Cons.prems(2) by simp
    then show ?thesis using matchAt_captures [OF Cons.prems(1)] Some by blast
  qed
qed

text \<open>
  Each of the five patterns sets both of its captures whenever it matches, so
  \<open>match[1]\<close> and \<open>match[2]\<close> are strings in the loop body and \<open>toLowerCase\<close> is never
  called on \<open>undefined\<close>.
\<close>

lemma conversion_captures:
  "p \<in> set conversionPatterns \<Longrightarrow> match q p = Some m \<Longrightarrow>
   map_of (groups m) 1 \<noteq> None \<and> map_of (groups m) 2 \<noteq> None"
proof -
  assume p: "p \<in> set conversionPatterns" and m: "match q p = Some m"
  have w: "captures_always (word k) k" for k by (simp add: word_def)
  have "captures_always (body fromToPattern) 1" "captures_always (body fromToPattern) 2"
    "captures_always (body toPattern) 1" "captures_always (body toPattern) 2"
    "captures_always (body convertPattern) 1" "captures_always (body convertPattern) 2"
    "captures_always (body exchangePattern) 1" "captures_always (body exchangePattern) 2"
    "captures_always (body inPattern) 1" "captures_always (body inPattern) 2"
    by (simp_all add: fromToPattern_def toPattern_def convertPattern_def exchangePattern_def
        inPattern_def w)
  moreover have "p = fromToPattern \<or> p = toPattern \<or> p = convertPattern
      \<or> p = exchangePattern \<or> p = inPattern"
    using p by (simp add: conversionPatterns_def)
  ultimately have "captures_always (body p) 1" "captures_always (body p) 2" by blast+
  then show ?thesis using m search_captures unfolding match_def by blast
qed

section \<open>The two loops\<close>


lemma patternLoop_match:
  "match q p = Some m \<Longrightarrow>
   patternLoop lower codes q (p # after) slots =
     (if truthy (fst (tryPattern lower codes m slots)) \<and> truthy (snd (tryPattern lower codes m slots))
      then tryPattern lower codes m slots
      else patternLoop lower codes q after (tryPattern lower codes m slots))"
  by (simp add: Let_def)







lemma scanLoop_to:
  "scanLoop q es (f, t) = (f', t') \<Longrightarrow>
   t' = t \<or> (\<not> truthy t \<and> truthy f' \<and> t' \<noteq> f'
              \<and> (\<exists>(key, code)\<in>set es. includes_js q key \<and> t' = Str code))"
proof (induction es arbitrary: f)
  case Nil
  then show ?case by simp
next
  case (Cons e es)
  obtain key code where e: "e = (key, code)" by (cases e)
  show ?case
  proof (cases "includes_js q key")
    case False
    then have "scanLoop q es (f, t) = (f', t')" using Cons.prems e by simp
    from Cons.IH [OF this] show ?thesis by auto
  next
    case True
    show ?thesis
    proof (cases "truthy f")
      case False
      then have "scanLoop q es (Str code, t) = (f', t')" using Cons.prems e True by simp
      from Cons.IH [OF this] show ?thesis by auto
    next
      case tf: True
      show ?thesis
      proof (cases "\<not> truthy t \<and> Str code \<noteq> f")
        case True
        then have "f' = f" "t' = Str code" using Cons.prems e \<open>includes_js q key\<close> tf by auto
        then show ?thesis using True tf e \<open>includes_js q key\<close> by auto
      next
        case False
        then have "scanLoop q es (f, t) = (f', t')"
          using Cons.prems e \<open>includes_js q key\<close> tf by auto
        from Cons.IH [OF this] show ?thesis by auto
      qed
    qed
  qed
qed

lemma scanLoop_from:
  "scanLoop q es (f, t) = (f', t') \<Longrightarrow>
   f' = f \<or> (\<not> truthy f \<and> (\<exists>(key, code)\<in>set es. includes_js q key \<and> f' = Str code))"
proof (induction es arbitrary: f)
  case Nil
  then show ?case by simp
next
  case (Cons e es)
  obtain key code where e: "e = (key, code)" by (cases e)
  show ?case
  proof (cases "includes_js q key")
    case False
    then have "scanLoop q es (f, t) = (f', t')" using Cons.prems e by simp
    from Cons.IH [OF this] show ?thesis by auto
  next
    case True
    show ?thesis
    proof (cases "truthy f")
      case False
      then have "scanLoop q es (Str code, t) = (f', t')" using Cons.prems e True by simp
      from Cons.IH [OF this] show ?thesis using False True e by auto
    next
      case tf: True
      show ?thesis
      proof (cases "\<not> truthy t \<and> Str code \<noteq> f")
        case True
        then have "f' = f" using Cons.prems e \<open>includes_js q key\<close> tf by auto
        then show ?thesis by simp
      next
        case False
        then have "scanLoop q es (f, t) = (f', t')"
          using Cons.prems e \<open>includes_js q key\<close> tf by auto
        from Cons.IH [OF this] show ?thesis by auto
      qed
    qed
  qed
qed

lemma scanLoop_single_code:
  "\<forall>(key, code)\<in>set es. includes_js q key \<longrightarrow> code = c \<Longrightarrow> \<not> truthy t \<Longrightarrow>
   \<not> truthy f \<or> f = Str c \<Longrightarrow> snd (scanLoop q es (f, t)) = t"
proof (induction es arbitrary: f)
  case Nil
  then show ?case by simp
next
  case (Cons e es)
  obtain key code where e: "e = (key, code)" by (cases e)
  have rest: "\<forall>(key, code)\<in>set es. includes_js q key \<longrightarrow> code = c"
    using Cons.prems(1) by simp
  show ?case
  proof (cases "includes_js q key")
    case False
    then show ?thesis using Cons.IH [OF rest Cons.prems(2) Cons.prems(3)] e by simp
  next
    case True
    then have c: "code = c" using Cons.prems(1) e by simp
    show ?thesis
    proof (cases "truthy f")
      case False
      have "\<not> truthy (Str c) \<or> Str c = Str c" by simp
      from Cons.IH [OF rest Cons.prems(2) this] show ?thesis using False True e c by simp
    next
      case tf: True
      then have "f = Str c" using Cons.prems(3) by simp
      then show ?thesis
        using Cons.IH [OF rest Cons.prems(2) Cons.prems(3)] True e c tf by simp
    qed
  qed
qed


section \<open>The amount check\<close>

lemma lower_usd_to_eur: "toLowerCase (js ''USD to EUR'') = js ''usd to eur''"
  by (simp add: toLowerCase_def js_def)

lemma amount_usd_to_eur: "match (js ''usd to eur'') amountRegex = None"
  by (simp add: regex_eval amountRegex_def)

lemma patterns_usd_to_eur:
  "match (js ''usd to eur'') fromToPattern = None"
  "match (js ''usd to eur'') toPattern
     = Some \<lparr>matched = js ''usd to eur'', groups = [(2, js ''eur''), (1, js ''usd'')]\<rparr>"
  by (simp_all add: regex_eval pattern_defs)

lemma lookups_usd_eur:
  "getProp currencyCodes (toLowerCase (js ''usd'')) = Str (js ''USD'')"
  "getProp currencyCodes (toLowerCase (js ''eur'')) = Str (js ''EUR'')"
  by (simp_all add: table_eval)

lemma detect_usd_to_eur:
  "detectCurrencies toLowerCase currencyCodes (js ''usd to eur'')
     = (Str (js ''USD''), Str (js ''EUR''))"
  by (simp add: detectCurrencies_def fallback_def loop_eval patterns_usd_to_eur lookups_usd_eur)

text \<open>
  C3. Whenever the amount pattern finds no match in the lower-cased query,
  \<open>extractCurrencyInfo\<close> fails with the message about the amount, whatever the alias
  table and whatever the currency detection would find: the check comes first and the
  function returns there.
\<close>

theorem no_amount_fails_first:
  "match (lower query) amountRegex = None \<Longrightarrow>
   extractWith lower codes query = Failure noAmountError"
  by (simp add: extractWith_def)

text \<open>
  The query \<open>USD to EUR\<close> holds two aliases that the pattern phase resolves, and no
  amount.
\<close>

theorem no_amount_fails_first_witness:
  "match (toLowerCase (js ''USD to EUR'')) amountRegex = None
   \<and> detectCurrencies toLowerCase currencyCodes (toLowerCase (js ''USD to EUR''))
       = (Str (js ''USD''), Str (js ''EUR''))
   \<and> extractCurrencyInfo (js ''USD to EUR'') = Failure noAmountError"
proof -
  have h: "match (toLowerCase (js ''USD to EUR'')) amountRegex = None"
    by (simp add: lower_usd_to_eur amount_usd_to_eur)
  from no_amount_fails_first [of toLowerCase "js ''USD to EUR''" currencyCodes] h show ?thesis
    by (simp add: extractCurrencyInfo_def lower_usd_to_eur detect_usd_to_eur)
qed

section \<open>The two failures\<close>

lemma errors_differ: "noAmountError \<noteq> currenciesError"
  by (simp add: noAmountError_def currenciesError_def js_def)

lemma amount_100:
  "match (js ''100'') amountRegex = Some \<lparr>matched = js ''100'', groups = [(1, js ''100'')]\<rparr>"
  by (simp add: regex_eval amountRegex_def)

lemma lower_100: "toLowerCase (js ''100'') = js ''100''"
  by (simp add: toLowerCase_def js_def)

lemma patterns_100:
  "match (js ''100'') fromToPattern = None"
  "match (js ''100'') toPattern = None"
  "match (js ''100'') convertPattern = None"
  "match (js ''100'') exchangePattern = None"
  "match (js ''100'') inPattern = None"
  by (simp_all add: regex_eval pattern_defs)

lemma scan_100:
  "scanLoop (js ''100'') currencyCodes (Null, Null) = (Null, Null)"
  "scanLoop (js ''100'') currencyCodes_part000 (Null, Null) = (Null, Null)"
  by (simp_all add: table_eval)

lemma detect_100:
  "detectCurrencies toLowerCase currencyCodes (js ''100'') = (Null, Null)"
  "detectCurrencies toLowerCase currencyCodes_part000 (js ''100'') = (Null, Null)"
  by (simp_all add: detectCurrencies_def fallback_def conversionPatterns_def patterns_100
        scan_100)

text \<open>
  C7. \<open>extractCurrencyInfo\<close> fails with the message about the currencies exactly when an
  amount is found and, after the pattern phase and the scan, one of the two slots is
  still falsy. Every failure carries one of the two messages. The query \<open>100\<close> fails
  with the message about the currencies, in both copies of the component.
\<close>

theorem currencies_failure:
  "(extractWith lower codes query = Failure currenciesError)
     = (match (lower query) amountRegex \<noteq> None
        \<and> \<not> (truthy (fst (detectCurrencies lower codes (lower query)))
             \<and> truthy (snd (detectCurrencies lower codes (lower query)))))
   \<and> (\<forall>msg. extractWith lower codes query = Failure msg
         \<longrightarrow> msg = noAmountError \<or> msg = currenciesError)
   \<and> extractCurrencyInfo (js ''100'') = Failure currenciesError
   \<and> extractCurrencyInfo_part000 (js ''100'') = Failure currenciesError"
proof -
  have "(extractWith lower codes query = Failure currenciesError)
     = (match (lower query) amountRegex \<noteq> None
        \<and> \<not> (truthy (fst (detectCurrencies lower codes (lower query)))
             \<and> truthy (snd (detectCurrencies lower codes (lower query)))))"
    using errors_differ by (auto simp: extractWith_def Let_def split: option.splits)
  moreover have "\<forall>msg. extractWith lower codes query = Failure msg
         \<longrightarrow> msg = noAmountError \<or> msg = currenciesError"
    by (auto simp: extractWith_def Let_def split: option.splits if_splits)
  moreover have "extractCurrencyInfo (js ''100'') = Failure currenciesError"
    by (simp add: extractCurrencyInfo_def extractCurrencyInfo_part000_def extractWith_def
          lower_100 amount_100 detect_100)
  moreover have "extractCurrencyInfo_part000 (js ''100'') = Failure currenciesError"
    by (simp add: extractCurrencyInfo_def extractCurrencyInfo_part000_def extractWith_def
          lower_100 amount_100 detect_100)
  ultimately show ?thesis by blast
qed

theorem currencies_failure_witness:
  "match (toLowerCase (js ''100'')) amountRegex \<noteq> None
   \<and> detectCurrencies toLowerCase currencyCodes (toLowerCase (js ''100'')) = (Null, Null)
   \<and> extractWith toLowerCase currencyCodes (js ''100'') = Failure currenciesError"
  using currencies_failure [of toLowerCase currencyCodes "js ''100''"]
  by (simp add: lower_100 amount_100 detect_100)

section \<open>The pattern cascade\<close>












lemma parse_amount_100: "parseFloat (removeCommas (js ''100'')) = Fin 100"
  by (simp add: parseFloat_def removeCommas_def js_def isDigit_def)









section \<open>The scan of the alias table\<close>

lemma scan_dollar_usd:
  "scanLoop (js ''100 dollar usd'') currencyCodes (Null, Null) = (Str (js ''USD''), Null)"
  by (simp add: table_eval)

lemma present_dollar_usd:
  "\<forall>(key, code)\<in>set currencyCodes. includes_js (js ''100 dollar usd'') key \<longrightarrow> code = js ''USD''"
  by (simp add: table_eval)

text \<open>
  The guard of the scan. It writes \<open>toCurrency\<close> only while that is unset, only after
  \<open>fromCurrency\<close> is set, and only with the code of a key that occurs in the query and
  differs from \<open>fromCurrency\<close>; it writes \<open>fromCurrency\<close> only while that is unset, with
  the code of a key that occurs in the query. When every key of the table that occurs in
  the query has the same code \<open>c\<close>, and the scan starts with \<open>fromCurrency\<close> unset or
  equal to \<open>c\<close>, it leaves \<open>toCurrency\<close> as it found it.
\<close>

lemma fallback_guard:
  "(snd (fallback q codes (f, t)) = t
      \<or> (\<not> truthy t \<and> truthy (fst (fallback q codes (f, t)))
          \<and> snd (fallback q codes (f, t)) \<noteq> fst (fallback q codes (f, t))
          \<and> (\<exists>(key, code)\<in>set codes. includes_js q key
                \<and> snd (fallback q codes (f, t)) = Str code)))
   \<and> (fst (fallback q codes (f, t)) = f
      \<or> (\<not> truthy f
          \<and> (\<exists>(key, code)\<in>set codes. includes_js q key
                \<and> fst (fallback q codes (f, t)) = Str code)))
   \<and> ((\<forall>(key, code)\<in>set codes1. includes_js q1 key \<longrightarrow> code = c)
        \<and> (\<not> truthy f1 \<or> f1 = Str c)
      \<longrightarrow> snd (fallback q1 codes1 (f1, t1)) = t1)"
proof -
  obtain f' t' where r: "fallback q codes (f, t) = (f', t')"
    by (cases "fallback q codes (f, t)")
  have to: "t' = t \<or> (\<not> truthy t \<and> truthy f' \<and> t' \<noteq> f'
              \<and> (\<exists>(key, code)\<in>set codes. includes_js q key \<and> t' = Str code))"
  proof (cases "\<not> truthy f \<or> \<not> truthy t")
    case True
    then have "scanLoop q codes (f, t) = (f', t')" using r by (simp add: fallback_def)
    then show ?thesis by (rule scanLoop_to)
  next
    case False
    then show ?thesis using r by (simp add: fallback_def)
  qed
  have "from": "f' = f \<or> (\<not> truthy f
          \<and> (\<exists>(key, code)\<in>set codes. includes_js q key \<and> f' = Str code))"
  proof (cases "\<not> truthy f \<or> \<not> truthy t")
    case True
    then have "scanLoop q codes (f, t) = (f', t')" using r by (simp add: fallback_def)
    then show ?thesis by (rule scanLoop_from)
  next
    case False
    then show ?thesis using r by (simp add: fallback_def)
  qed
  have single: "snd (fallback q1 codes1 (f1, t1)) = t1"
    if "\<forall>(key, code)\<in>set codes1. includes_js q1 key \<longrightarrow> code = c"
      "\<not> truthy f1 \<or> f1 = Str c"
  proof (cases "truthy t1")
    case False
    from scanLoop_single_code [OF that(1) False that(2)] show ?thesis
      by (simp add: fallback_def)
  next
    case True
    obtain f'' t'' where s: "scanLoop q1 codes1 (f1, t1) = (f'', t'')"
      by (cases "scanLoop q1 codes1 (f1, t1)")
    from scanLoop_to [OF s] True have "t'' = t1" by blast
    then show ?thesis using s by (simp add: fallback_def)
  qed
  from to "from" single show ?thesis unfolding r by simp
qed

lemma guard_dollar_usd:
  "fallback (js ''100 dollar usd'') currencyCodes (Null, Null) = (Str (js ''USD''), Null)"
  by (simp add: fallback_def scan_dollar_usd)

lemma lower_constructor_xyz_usd:
  "toLowerCase (js ''100 constructor to xyz usd'') = js ''100 constructor to xyz usd''"
  by (simp add: toLowerCase_def js_def)

lemma amount_constructor_xyz_usd:
  "match (js ''100 constructor to xyz usd'') amountRegex
     = Some \<lparr>matched = js ''100'', groups = [(1, js ''100'')]\<rparr>"
  by (simp add: regex_eval amountRegex_def)

lemma patterns_constructor_xyz_usd:
  "match (js ''100 constructor to xyz usd'') fromToPattern = None"
  "match (js ''100 constructor to xyz usd'') toPattern
     = Some \<lparr>matched = js ''constructor to xyz'',
             groups = [(2, js ''xyz''), (1, js ''constructor'')]\<rparr>"
  "match (js ''100 constructor to xyz usd'') convertPattern = None"
  "match (js ''100 constructor to xyz usd'') exchangePattern = None"
  "match (js ''100 constructor to xyz usd'') inPattern = None"
  by (simp_all add: regex_eval pattern_defs)

lemma lookups_constructor_xyz:
  "getProp currencyCodes (toLowerCase (js ''constructor'')) = Builtin (js ''constructor'')"
  "getProp currencyCodes_part000 (toLowerCase (js ''constructor''))
     = Builtin (js ''constructor'')"
  "getProp currencyCodes (toLowerCase (js ''xyz'')) = Undefined"
  "getProp currencyCodes_part000 (toLowerCase (js ''xyz'')) = Undefined"
  by (simp_all add: table_eval)

lemma cascade_constructor_xyz_usd:
  "patternLoop toLowerCase currencyCodes (js ''100 constructor to xyz usd'')
     conversionPatterns (Null, Null) = (Builtin (js ''constructor''), Null)"
  "patternLoop toLowerCase currencyCodes_part000 (js ''100 constructor to xyz usd'')
     conversionPatterns (Null, Null) = (Builtin (js ''constructor''), Null)"
  by (simp_all add: loop_eval patterns_constructor_xyz_usd lookups_constructor_xyz)

lemma present_constructor_xyz_usd:
  "filter (\<lambda>(key, code). includes_js (js ''100 constructor to xyz usd'') key) currencyCodes
     = [(js ''usd'', js ''USD'')]"
  "filter (\<lambda>(key, code). includes_js (js ''100 constructor to xyz usd'') key)
       currencyCodes_part000
     = [(js ''usd'', js ''USD'')]"
  by (simp_all add: table_eval)

lemma scan_constructor_xyz_usd:
  "scanLoop (js ''100 constructor to xyz usd'') currencyCodes
     (Builtin (js ''constructor''), Null) = (Builtin (js ''constructor''), Str (js ''USD''))"
  "scanLoop (js ''100 constructor to xyz usd'') currencyCodes_part000
     (Builtin (js ''constructor''), Null) = (Builtin (js ''constructor''), Str (js ''USD''))"
  by (simp_all add: table_eval)

text \<open>
  C4. The guard of the scan compares the code of a key with \<open>fromCurrency\<close>, and so
  keeps \<open>toCurrency\<close> unset when every key found in the query has the one code that
  \<open>fromCurrency\<close> holds. The pattern phase, however, can leave in \<open>fromCurrency\<close> a member
  that the alias table inherits from \<open>Object.prototype\<close>, which equals no code. In
  \<open>100 constructor to xyz usd\<close> the only key of the table that occurs is \<open>usd\<close>; the
  pattern phase ends with the function \<open>Object\<close> as source and the target unset, and the
  scan then sets the target to \<open>USD\<close>: the extraction succeeds, in both copies.
\<close>

theorem scan_after_inherited_member:
  "filter (\<lambda>(key, code). includes_js (toLowerCase (js ''100 constructor to xyz usd'')) key)
       currencyCodes = [(js ''usd'', js ''USD'')]
   \<and> filter (\<lambda>(key, code). includes_js (toLowerCase (js ''100 constructor to xyz usd'')) key)
       currencyCodes_part000 = [(js ''usd'', js ''USD'')]
   \<and> patternLoop toLowerCase currencyCodes (toLowerCase (js ''100 constructor to xyz usd''))
       conversionPatterns (Null, Null) = (Builtin (js ''constructor''), Null)
   \<and> patternLoop toLowerCase currencyCodes_part000
       (toLowerCase (js ''100 constructor to xyz usd''))
       conversionPatterns (Null, Null) = (Builtin (js ''constructor''), Null)
   \<and> fallback (toLowerCase (js ''100 constructor to xyz usd'')) currencyCodes
       (Builtin (js ''constructor''), Null) = (Builtin (js ''constructor''), Str (js ''USD''))
   \<and> fallback (toLowerCase (js ''100 constructor to xyz usd'')) currencyCodes_part000
       (Builtin (js ''constructor''), Null) = (Builtin (js ''constructor''), Str (js ''USD''))
   \<and> extractCurrencyInfo (js ''100 constructor to xyz usd'')
       = Success (Fin 100) (Builtin (js ''constructor'')) (Str (js ''USD''))
   \<and> extractCurrencyInfo_part000 (js ''100 constructor to xyz usd'')
       = Success (Fin 100) (Builtin (js ''constructor'')) (Str (js ''USD''))"
proof -
  have f: "fallback (js ''100 constructor to xyz usd'') currencyCodes
       (Builtin (js ''constructor''), Null) = (Builtin (js ''constructor''), Str (js ''USD''))"
    "fallback (js ''100 constructor to xyz usd'') currencyCodes_part000
       (Builtin (js ''constructor''), Null) = (Builtin (js ''constructor''), Str (js ''USD''))"
    by (simp_all add: fallback_def scan_constructor_xyz_usd)
  have "extractCurrencyInfo (js ''100 constructor to xyz usd'')
       = Success (Fin 100) (Builtin (js ''constructor'')) (Str (js ''USD''))"
    by (simp add: extractCurrencyInfo_def extractWith_def detectCurrencies_def
          lower_constructor_xyz_usd amount_constructor_xyz_usd parse_amount_100
          cascade_constructor_xyz_usd f)
  moreover have "extractCurrencyInfo_part000 (js ''100 constructor to xyz usd'')
       = Success (Fin 100) (Builtin (js ''constructor'')) (Str (js ''USD''))"
    by (simp add: extractCurrencyInfo_part000_def extractWith_def detectCurrencies_def
          lower_constructor_xyz_usd amount_constructor_xyz_usd parse_amount_100
          cascade_constructor_xyz_usd f)
  ultimately show ?thesis
    by (simp add: lower_constructor_xyz_usd present_constructor_xyz_usd
          cascade_constructor_xyz_usd f)
qed

theorem scan_after_inherited_member_witness:
  "snd (fallback (toLowerCase (js ''100 constructor to xyz usd'')) currencyCodes
          (Builtin (js ''constructor''), Null)) = Str (js ''USD'')
   \<and> extractCurrencyInfo (js ''100 constructor to xyz usd'') \<noteq> Failure currenciesError
   \<and> extractCurrencyInfo_part000 (js ''100 constructor to xyz usd'')
       \<noteq> Failure currenciesError"
  using scan_after_inherited_member by simp

section \<open>The rendering of the result\<close>

lemma digitsOf_nonempty: "digitsOf n \<noteq> []"
  by (subst digitsOf.simps) simp

lemma digitsOf_isDigit: "d \<in> set (digitsOf n) \<Longrightarrow> isDigit d"
proof (induction n arbitrary: d rule: digitsOf.induct)
  case (1 n)
  show ?case
  proof (cases "n < 10")
    case True
    then show ?thesis using "1.prems" by (simp add: digitsOf_small isDigit_def)
  next
    case False
    then have "d \<in> set (digitsOf (n div 10)) \<or> d = 48 + n mod 10"
      using "1.prems" by (auto simp: digitsOf_large)
    then show ?thesis
    proof
      assume "d \<in> set (digitsOf (n div 10))"
      then show ?thesis using "1.IH" False by simp
    next
      assume "d = 48 + n mod 10"
      moreover have "n mod 10 < 10" by simp
      ultimately show ?thesis by (simp add: isDigit_def)
    qed
  qed
qed

lemma digitsOf_length_below_100: "n < 100 \<Longrightarrow> length (digitsOf n) \<le> 2"
proof -
  assume n: "n < 100"
  show ?thesis
  proof (cases "n < 10")
    case True
    then show ?thesis by (simp add: digitsOf_small)
  next
    case False
    moreover have "n div 10 < 10" using n by simp
    ultimately show ?thesis by (simp add: digitsOf_large digitsOf_small)
  qed
qed

lemma groupRev_set: "set (groupRev r) \<subseteq> insert 44 (set r)"
  by (induction r rule: groupRev.induct) auto

lemma groupRev_hd: "r \<noteq> [] \<Longrightarrow> \<exists>tl'. groupRev r = hd r # tl' \<and> set tl' \<subseteq> insert 44 (set r)"
proof (induction r rule: groupRev.induct)
  case (1 a b c d r)
  have "set (groupRev (d # r)) \<subseteq> insert 44 (set (d # r))" by (rule groupRev_set)
  then show ?case by auto
qed auto

lemma dropZeros_0: "dropZeros 0 r = r"
  by (cases r) simp_all

lemma fractionDigits_2_2:
  assumes "fp < 100"
  shows "\<exists>d1 d2. fractionDigits 2 2 fp = [d1, d2] \<and> isDigit d1 \<and> isDigit d2"
proof -
  let ?ds = "digitsOf fp"
  have digits: "\<And>d. d \<in> set ?ds \<Longrightarrow> isDigit d" by (rule digitsOf_isDigit)
  have "length ?ds \<noteq> 0" using digitsOf_nonempty [of fp] by simp
  then have "length ?ds = Suc 0 \<or> length ?ds = Suc (Suc 0)"
    using digitsOf_length_below_100 [OF assms] by arith
  then show ?thesis
  proof
    assume "length ?ds = Suc 0"
    then obtain a where a: "?ds = [a]" by (auto simp: length_Suc_conv)
    then have "isDigit a" using digits [of a] by simp
    moreover have "fractionDigits 2 2 fp = [48, a]"
      by (simp add: fractionDigits_def a dropZeros_0)
    moreover have "isDigit 48" by (simp add: isDigit_def)
    ultimately show ?thesis by blast
  next
    assume "length ?ds = Suc (Suc 0)"
    then obtain a b where ab: "?ds = [a, b]" by (auto simp: length_Suc_conv)
    then have "isDigit a" "isDigit b" using digits [of a] digits [of b] by simp_all
    moreover have "fractionDigits 2 2 fp = [a, b]"
      by (simp add: fractionDigits_def ab dropZeros_0)
    ultimately show ?thesis by blast
  qed
qed

lemma formatMagnitude_2_2:
  assumes "46 \<notin> set pre"
  shows "twoFractionDigits (pre @ formatMagnitude 2 2 q)"
proof -
  define n where "n = nat \<lfloor>q * 100 + 1 / 2\<rfloor>"
  have "n mod 100 < 100" by simp
  from fractionDigits_2_2 [OF this] obtain d1 d2
    where frac: "fractionDigits 2 2 (n mod 100) = [d1, d2]" "isDigit d1" "isDigit d2"
    by blast
  let ?ds = "digitsOf (n div 100)"
  have "rev ?ds \<noteq> []" using digitsOf_nonempty by simp
  from groupRev_hd [OF this] obtain tl'
    where g: "groupRev (rev ?ds) = hd (rev ?ds) # tl'" "set tl' \<subseteq> insert 44 (set (rev ?ds))"
    by blast
  have d0: "isDigit (hd (rev ?ds))"
    using digitsOf_isDigit [of "hd (rev ?ds)" "n div 100"] \<open>rev ?ds \<noteq> []\<close>
    by (metis hd_in_set set_rev)
  have "\<forall>d\<in>set tl'. d \<noteq> 46"
  proof
    fix d assume "d \<in> set tl'"
    then have "d = 44 \<or> d \<in> set ?ds" using g(2) by auto
    then show "d \<noteq> 46" using digitsOf_isDigit [of d "n div 100"] by (auto simp: isDigit_def)
  qed
  then have no: "46 \<notin> set tl'" by blast
  have "formatMagnitude 2 2 q = groupThousands ?ds @ [46, d1, d2]"
    by (simp add: formatMagnitude_def Let_def n_def [symmetric] frac)
  then have "rev (pre @ formatMagnitude 2 2 q) = d2 # d1 # 46 # hd (rev ?ds) # (tl' @ rev pre)"
    by (simp add: groupThousands_def g)
  then show ?thesis
    using frac d0 no assms by (simp add: twoFractionDigits_def)
qed

text \<open>
  C6, as amended. For every finite result (and for negative zero),
  \<open>formatCurrencyResult\<close> renders the result with exactly two fraction digits, whatever
  its precision: the rendering ends with a digit, a point and two digits. The text
  returned is the source symbol, the amount rendered with at most three fraction
  digits and none forced, the source code, the words \<open>is approximately\<close>, the target
  symbol, that rendering of the result, the target code and the closing words.
\<close>

theorem result_two_fraction_digits:
  "twoFractionDigits (formatNumber 2 2 (Fin q))
   \<and> twoFractionDigits (formatNumber 2 2 NegZero)
   \<and> formatWith symbols amount fromCurrency toCurrency result
       = ToString (symbolOrEmpty symbols fromCurrency) @ formatNumber 0 3 amount @ js '' ''
         @ ToString fromCurrency @ js '' is approximately ''
         @ ToString (symbolOrEmpty symbols toCurrency) @ formatNumber 2 2 result @ js '' ''
         @ ToString toCurrency @ js '' at the current exchange rate.''"
proof -
  have "twoFractionDigits ([] @ formatMagnitude 2 2 q)"
    by (rule formatMagnitude_2_2) simp
  moreover have "twoFractionDigits ([45] @ formatMagnitude 2 2 (- q))"
    by (rule formatMagnitude_2_2) simp
  moreover have "twoFractionDigits ([45] @ formatMagnitude 2 2 0)"
    by (rule formatMagnitude_2_2) simp
  ultimately show ?thesis
    by (simp add: formatWith_def Let_def)
qed

text \<open>The result \<open>1234.5\<close> of converting 1000 dollars is rendered as \<open>1,234.50\<close>.\<close>

theorem result_two_fraction_digits_witness:
  "formatNumber 2 2 (Fin (12345 / 10)) = js ''1,234.50''
   \<and> twoFractionDigits (js ''1,234.50'')
   \<and> formatCurrencyResult (Fin 1000) (Str (js ''USD'')) (Str (js ''EUR'')) (Fin (12345 / 10))
       = js ''$1,000 USD is approximately '' @ [8364]
         @ js ''1,234.50 EUR at the current exchange rate.''"
proof -
  have e: "formatNumber 2 2 (Fin (12345 / 10)) = js ''1,234.50''"
    by (simp add: number_eval js_def)
  have f: "formatCurrencyResult (Fin 1000) (Str (js ''USD'')) (Str (js ''EUR''))
        (Fin (12345 / 10))
       = js ''$1,000 USD is approximately '' @ [8364]
         @ js ''1,234.50 EUR at the current exchange rate.''"
    by (simp add: format_eval number_eval js_def)
  from result_two_fraction_digits [of "12345 / 10"] e f show ?thesis by simp
qed

text \<open>
  C6 as stated fails for a result that is not finite: the product of an amount and a
  rate that overflows is \<open>Infinity\<close>, and it is rendered as the infinity sign, with no
  fraction digits.
\<close>

theorem result_infinity_counterexample:
  "formatCurrencyResult (Fin 1) (Str (js ''USD'')) (Str (js ''EUR'')) PosInfinity
     = js ''$1 USD is approximately '' @ [8364, 8734] @ js '' EUR at the current exchange rate.''
   \<and> \<not> twoFractionDigits (formatNumber 2 2 PosInfinity)
   \<and> \<not> twoFractionDigits (formatNumber 2 2 NaN)"
  by (simp add: format_eval number_eval twoFractionDigits_def js_def)

section \<open>Symbols of the extracted currencies\<close>

lemma lower_constructor:
  "toLowerCase (js ''100 constructor to usd'') = js ''100 constructor to usd''"
  by (simp add: toLowerCase_def js_def)

lemma amount_constructor:
  "match (js ''100 constructor to usd'') amountRegex
     = Some \<lparr>matched = js ''100'', groups = [(1, js ''100'')]\<rparr>"
  by (simp add: regex_eval amountRegex_def)

lemma parse_100: "parseFloat (removeCommas (js ''100'')) = Fin 100"
  by (simp add: parseFloat_def removeCommas_def js_def isDigit_def)

lemma patterns_constructor:
  "match (js ''100 constructor to usd'') fromToPattern = None"
  "match (js ''100 constructor to usd'') toPattern
     = Some \<lparr>matched = js ''constructor to usd'',
             groups = [(2, js ''usd''), (1, js ''constructor'')]\<rparr>"
  by (simp_all add: regex_eval pattern_defs)

lemma lookups_constructor:
  "getProp currencyCodes (toLowerCase (js ''constructor'')) = Builtin (js ''constructor'')"
  "getProp currencyCodes_part000 (toLowerCase (js ''constructor''))
     = Builtin (js ''constructor'')"
  "getProp currencyCodes_part000 (toLowerCase (js ''usd'')) = Str (js ''USD'')"
  by (simp_all add: table_eval)

lemma detect_constructor:
  "detectCurrencies toLowerCase currencyCodes (js ''100 constructor to usd'')
     = (Builtin (js ''constructor''), Str (js ''USD''))"
  "detectCurrencies toLowerCase currencyCodes_part000 (js ''100 constructor to usd'')
     = (Builtin (js ''constructor''), Str (js ''USD''))"
  by (simp_all add: detectCurrencies_def fallback_def loop_eval patterns_constructor
        lookups_constructor lookups_usd_eur)

text \<open>
  C10. Every code in the range of either alias table is a key of the symbol table of
  its copy. The lookup of a captured token, however, also finds the members that the
  alias table inherits from \<open>Object.prototype\<close>: for the query \<open>100 constructor to usd\<close>
  the extraction succeeds with the function \<open>Object\<close> as the source currency, which is no
  code of the table, and the formatter takes the empty symbol for it.
\<close>

theorem inherited_member_as_currency:
  "set (map snd currencyCodes) \<subseteq> set (map fst currencySymbols)
   \<and> set (map snd currencyCodes_part000) \<subseteq> set (map fst CURRENCY_SYMBOLS)
   \<and> extractCurrencyInfo (js ''100 constructor to usd'')
       = Success (Fin 100) (Builtin (js ''constructor'')) (Str (js ''USD''))
   \<and> extractCurrencyInfo_part000 (js ''100 constructor to usd'')
       = Success (Fin 100) (Builtin (js ''constructor'')) (Str (js ''USD''))
   \<and> symbolOrEmpty currencySymbols (Builtin (js ''constructor'')) = Str []
   \<and> symbolOrEmpty CURRENCY_SYMBOLS (Builtin (js ''constructor'')) = Str []"
proof -
  have "set (map snd currencyCodes) \<subseteq> set (map fst currencySymbols)"
    by (simp add: currencyCodes_def currencySymbols_def objectLiteral_def js_def)
  moreover have "set (map snd currencyCodes_part000) \<subseteq> set (map fst CURRENCY_SYMBOLS)"
    by (simp add: currencyCodes_part000_def CURRENCY_SYMBOLS_def CURRENCY_LIST_def
          objectLiteral_def js_def)
  moreover have "extractCurrencyInfo (js ''100 constructor to usd'')
       = Success (Fin 100) (Builtin (js ''constructor'')) (Str (js ''USD''))"
    by (simp add: extractCurrencyInfo_def extractWith_def lower_constructor
          amount_constructor parse_100 detect_constructor)
  moreover have "extractCurrencyInfo_part000 (js ''100 constructor to usd'')
       = Success (Fin 100) (Builtin (js ''constructor'')) (Str (js ''USD''))"
    by (simp add: extractCurrencyInfo_part000_def extractWith_def lower_constructor
          amount_constructor parse_100 detect_constructor)
  moreover have "symbolOrEmpty currencySymbols (Builtin (js ''constructor'')) = Str []"
    by (simp add: symbolOrEmpty_def currencySymbols_def objectLiteral_def getProp_def
          objectPrototypeKeys_def js_def)
  moreover have "symbolOrEmpty CURRENCY_SYMBOLS (Builtin (js ''constructor'')) = Str []"
    by (simp add: symbolOrEmpty_def CURRENCY_SYMBOLS_def CURRENCY_LIST_def objectLiteral_def
          getProp_def objectPrototypeKeys_def js_def)
  ultimately show ?thesis by blast
qed

theorem inherited_member_as_currency_witness:
  "extractCurrencyInfo (js ''100 constructor to usd'') \<noteq> Failure currenciesError
   \<and> ToString (symbolOrEmpty currencySymbols (Builtin (js ''constructor''))) = []"
  using inherited_member_as_currency by simp

end
